theory Spec2Isabelle
  imports Main "HOL-Library.Word"
begin

unbundle bit_operations_syntax

section \<open>Values, errors and bytes\<close>

text \<open>
  The ISO BMFF box core: elements, the box schema registry, \<open>Box\<close>, \<open>Container\<close>.
  A byte buffer (\<open>Uint8Array\<close>) is a list of 8-bit words. A JavaScript number is an
  \<open>int\<close>: every number the code handles here is an integer, and the model is exact
  where the double-precision arithmetic is (below \<open>2 ^ 53\<close>). Elements and child
  boxes are held by value: a box owns its elements, and the registry's defaults are
  constants.
\<close>

type_synonym byte = "8 word"

datatype error =
    UnknownBoxType      \<comment> \<open>\<open>unknown box type\<close>\<close>
  | InvalidKey          \<comment> \<open>\<open>invalid key\<close>\<close>
  | DuplicateField      \<comment> \<open>\<open>Trying to add existing key\<close>\<close>
  | NotImplemented      \<comment> \<open>\<open>not implemented\<close> (\<open>ByteArray.load\<close>)\<close>
  | RangeError          \<comment> \<open>\<open>TypedArray.set\<close> past the end of the target\<close>
  | InsufficientBytes   \<comment> \<open>byte helper: access past the end of the buffer\<close>
  | ValueOutOfRange     \<comment> \<open>byte helper: value does not fit the width\<close>
  | TypeMismatch        \<comment> \<open>a value outside the declared TypeScript type of the field\<close>

datatype kind =
    Empty | CharArray | UInt8 | UInt8Array | UInt16BE | UInt24BE | UInt16BEArray
  | UInt32BE | UInt32BEArray | UInt64BE | ByteArray | ParameterSetArray int

text \<open>
  \<open>element\<close> is a \<open>BoxElement\<close>: its class, its \<open>byteLength\<close> and its \<open>value\<close>
  (both public and independent: \<open>set\<close> replaces the value and leaves the length).
  A \<open>Box\<close> is itself a \<open>BoxElement\<close>; \<open>boxSize\<close> exists on a \<open>Container\<close> only.
\<close>

datatype val =
    VUndefined
  | VNum int
  | VStr string
  | VArr "int list"
  | VArr2 "int list list"
  | VBytes "byte list"
  | VElems "element list"
and element =
    Elem (ekind: kind) (elen: nat) (evalue: val)
  | BoxEl box
and box =
    Box (btype: string) (bconfig: "(string \<times> val) list") (blen: nat)
        (struct: "(string \<times> nat \<times> element) list") (boxSize: "nat option")
        (bvalue: val)

type_synonym entry = "string \<times> nat \<times> element"

fun byteLength :: "element \<Rightarrow> nat" where
  "byteLength (Elem k n v) = n"
| "byteLength (BoxEl b) = blen b"

fun value_of :: "element \<Rightarrow> val" where
  "value_of (Elem k n v) = v"
| "value_of (BoxEl b) = bvalue b"

fun with_value :: "element \<Rightarrow> val \<Rightarrow> element" where
  \<comment> \<open>\<open>element.value = v\<close>\<close>
  "with_value (Elem k n _) v = Elem k n v"
| "with_value (BoxEl (Box t c n st bs _)) v = BoxEl (Box t c n st bs v)"

definition UINT32_RANGE :: int where
  "UINT32_RANGE = 2 ^ 32"

subsection \<open>JavaScript arithmetic\<close>

definition to_int32 :: "int \<Rightarrow> int" where
  \<comment> \<open>\<open>ToInt32\<close>: wrap into \<open>[-2^31, 2^31)\<close>\<close>
  "to_int32 x = (x + 2 ^ 31) mod 2 ^ 32 - 2 ^ 31"

definition to_uint32 :: "int \<Rightarrow> int" where
  "to_uint32 x = x mod 2 ^ 32"

definition js_trunc_div :: "int \<Rightarrow> int \<Rightarrow> int" where
  \<comment> \<open>the integer part of the quotient \<open>a / b\<close>, rounded towards zero\<close>
  "js_trunc_div a b = sgn a * sgn b * (\<bar>a\<bar> div \<bar>b\<bar>)"

definition js_or :: "int \<Rightarrow> int \<Rightarrow> int" where
  \<comment> \<open>\<open>a | b\<close>\<close>
  "js_or a b = to_int32 a OR to_int32 b"

definition js_ushr :: "int \<Rightarrow> nat \<Rightarrow> int" where
  \<comment> \<open>\<open>a >>> n\<close>\<close>
  "js_ushr a n = to_uint32 a div 2 ^ (n mod 32)"

fun truthy :: "val \<Rightarrow> bool" where
  \<comment> \<open>the test of \<open>if (v)\<close>: \<open>undefined\<close>, \<open>0\<close> and the empty string are falsy; every
      array and object, also the empty array, is truthy\<close>
  "truthy VUndefined = False"
| "truthy (VNum n) = (n \<noteq> 0)"
| "truthy (VStr s) = (s \<noteq> [])"
| "truthy _ = True"

subsection \<open>Byte helpers\<close>

text \<open>
  Modelled from the spec: \<open>utils/bytes\<close> (\<open>decode\<close>, \<open>readUInt8\<close> ... \<open>writeUInt32BE\<close>) is
  imported by the box core and is not part of the sources at hand. Section 4.1 of the
  specification: reads return a non-negative integer and fail with \<open>InsufficientBytes\<close>
  out of range; writes are big-endian and fail with \<open>ValueOutOfRange\<close> for a value outside
  \<open>[0, 2^n)\<close>; \<open>decode\<close> maps each byte to the character with that code. A write out of
  range of the buffer is taken to fail with \<open>InsufficientBytes\<close> as well.
\<close>

definition be_bytes :: "nat \<Rightarrow> int \<Rightarrow> byte list" where
  \<comment> \<open>the \<open>w\<close> bytes of \<open>v\<close>, most significant first\<close>
  "be_bytes w v = map (\<lambda>i. word_of_int (v div 256 ^ (w - 1 - i))) [0..<w]"

definition be_val :: "byte list \<Rightarrow> int" where
  "be_val bs = foldl (\<lambda>acc b. acc * 256 + uint b) 0 bs"

definition splice :: "byte list \<Rightarrow> nat \<Rightarrow> byte list \<Rightarrow> byte list" where
  \<comment> \<open>overwrite \<open>buf\<close> from \<open>off\<close> with \<open>bs\<close> (the caller checks the range)\<close>
  "splice buf off bs = take off buf @ bs @ drop (off + length bs) buf"

definition readUIntBE :: "nat \<Rightarrow> byte list \<Rightarrow> nat \<Rightarrow> error + int" where
  "readUIntBE w buf off =
     (if off + w \<le> length buf then Inr (be_val (take w (drop off buf)))
      else Inl InsufficientBytes)"

definition writeUIntBE :: "nat \<Rightarrow> byte list \<Rightarrow> nat \<Rightarrow> int \<Rightarrow> error + byte list" where
  "writeUIntBE w buf off v =
     (if v < 0 \<or> 256 ^ w \<le> v then Inl ValueOutOfRange
      else if length buf < off + w then Inl InsufficientBytes
      else Inr (splice buf off (be_bytes w v)))"

abbreviation "readUInt8 \<equiv> readUIntBE 1"
abbreviation "readUInt16BE \<equiv> readUIntBE 2"
abbreviation "readUInt24BE \<equiv> readUIntBE 3"
abbreviation "readUInt32BE \<equiv> readUIntBE 4"
abbreviation "writeUInt8 \<equiv> writeUIntBE 1"
abbreviation "writeUInt16BE \<equiv> writeUIntBE 2"
abbreviation "writeUInt24BE \<equiv> writeUIntBE 3"
abbreviation "writeUInt32BE \<equiv> writeUIntBE 4"

definition decode :: "byte list \<Rightarrow> string" where
  "decode bs = map (\<lambda>b. char_of (unat b)) bs"

subsection \<open>Typed-array primitives\<close>

definition subarray :: "byte list \<Rightarrow> nat \<Rightarrow> nat \<Rightarrow> byte list" where
  \<comment> \<open>\<open>buffer.subarray(a, b)\<close> and \<open>buffer.slice(a, b)\<close>: clamped to the buffer\<close>
  "subarray buf a b = drop a (take b buf)"

definition fill0 :: "byte list \<Rightarrow> nat \<Rightarrow> nat \<Rightarrow> byte list" where
  \<comment> \<open>\<open>buffer.fill(0, a, b)\<close>: clamped to the buffer\<close>
  "fill0 buf a b = map (\<lambda>i. if a \<le> i \<and> i < b then 0 else buf ! i) [0..<length buf]"

definition store_byte :: "byte list \<Rightarrow> nat \<Rightarrow> byte \<Rightarrow> byte list" where
  \<comment> \<open>\<open>buffer[i] = b\<close>: ignored past the end\<close>
  "store_byte buf i b = (if i < length buf then buf[i := b] else buf)"

definition charCodeAt :: "string \<Rightarrow> nat \<Rightarrow> byte" where
  \<comment> \<open>\<open>s.charCodeAt(i)\<close> as stored in a \<open>Uint8Array\<close>: \<open>NaN\<close> past the end is stored as 0\<close>
  "charCodeAt s i = (if i < length s then of_nat (of_char (s ! i)) else 0)"

definition typed_set :: "byte list \<Rightarrow> byte list \<Rightarrow> nat \<Rightarrow> error + byte list" where
  \<comment> \<open>\<open>buffer.set(array, offset)\<close>\<close>
  "typed_set buf bs off =
     (if length buf < off + length bs then Inl RangeError else Inr (splice buf off bs))"

definition bind_err :: "error + 'a \<Rightarrow> ('a \<Rightarrow> error + 'b) \<Rightarrow> error + 'b" where
  \<comment> \<open>sequencing: a thrown error ends the computation\<close>
  "bind_err m f = (case m of Inl e \<Rightarrow> Inl e | Inr x \<Rightarrow> f x)"

section \<open>Elements\<close>

text \<open>
  \<open>new Type(value)\<close>. A missing scalar argument takes the default parameter. An argument
  outside the constructor's declared parameter type is \<open>TypeMismatch\<close>.
\<close>

definition pset_value :: "int \<Rightarrow> int list list \<Rightarrow> element list" where
  \<comment> \<open>the \<open>reduce\<close> of the \<open>ParameterSetArray\<close> constructor\<close>
  "pset_value sizeMask array =
     foldl (\<lambda>flatArray byteArray. flatArray @
              [Elem UInt16BE 2 (VNum (int (length byteArray))),
               Elem UInt8Array (length byteArray) (VArr byteArray)])
       [Elem UInt8 1 (VNum (js_or sizeMask (int (length array))))] array"

definition construct :: "kind \<Rightarrow> val \<Rightarrow> error + element" where
  "construct Type v =
     (case Type of
        Empty \<Rightarrow>
          (case v of
             VUndefined \<Rightarrow> Inr (Elem Empty 0 VUndefined)
           | VNum sz \<Rightarrow>
               if 0 \<le> sz then Inr (Elem Empty (nat sz) VUndefined) else Inl TypeMismatch
           | _ \<Rightarrow> Inl TypeMismatch)
      | CharArray \<Rightarrow>
          (case v of VStr s \<Rightarrow> Inr (Elem CharArray (length s) (VStr s))
                   | _ \<Rightarrow> Inl TypeMismatch)
      | UInt8 \<Rightarrow>
          (case v of VUndefined \<Rightarrow> Inr (Elem UInt8 1 (VNum 0))
                   | VNum scalar \<Rightarrow> Inr (Elem UInt8 1 (VNum scalar))
                   | _ \<Rightarrow> Inl TypeMismatch)
      | UInt8Array \<Rightarrow>
          (case v of VArr array \<Rightarrow> Inr (Elem UInt8Array (length array) (VArr array))
                   | _ \<Rightarrow> Inl TypeMismatch)
      | UInt16BE \<Rightarrow>
          (case v of VUndefined \<Rightarrow> Inr (Elem UInt16BE 2 (VNum 0))
                   | VNum scalar \<Rightarrow> Inr (Elem UInt16BE 2 (VNum scalar))
                   | _ \<Rightarrow> Inl TypeMismatch)
      | UInt24BE \<Rightarrow>
          (case v of VUndefined \<Rightarrow> Inr (Elem UInt24BE 3 (VNum 0))
                   | VNum scalar \<Rightarrow> Inr (Elem UInt24BE 3 (VNum scalar))
                   | _ \<Rightarrow> Inl TypeMismatch)
      | UInt16BEArray \<Rightarrow>
          (case v of VArr array \<Rightarrow> Inr (Elem UInt16BEArray (length array * 2) (VArr array))
                   | _ \<Rightarrow> Inl TypeMismatch)
      | UInt32BE \<Rightarrow>
          (case v of VUndefined \<Rightarrow> Inr (Elem UInt32BE 4 (VNum 0))
                   | VNum scalar \<Rightarrow> Inr (Elem UInt32BE 4 (VNum scalar))
                   | _ \<Rightarrow> Inl TypeMismatch)
      | UInt32BEArray \<Rightarrow>
          (case v of VArr array \<Rightarrow> Inr (Elem UInt32BEArray (length array * 4) (VArr array))
                   | _ \<Rightarrow> Inl TypeMismatch)
      | UInt64BE \<Rightarrow>
          (case v of VUndefined \<Rightarrow> Inr (Elem UInt64BE 8 (VNum 0))
                   | VNum scalar \<Rightarrow> Inr (Elem UInt64BE 8 (VNum scalar))
                   | _ \<Rightarrow> Inl TypeMismatch)
      | ByteArray \<Rightarrow>
          (case v of VBytes array \<Rightarrow> Inr (Elem ByteArray (length array) (VBytes array))
                   | _ \<Rightarrow> Inl TypeMismatch)
      | ParameterSetArray sizeMask \<Rightarrow>
          (case v of
             VArr2 array \<Rightarrow>
               (let es = pset_value sizeMask array
                in Inr (Elem (ParameterSetArray sizeMask)
                          (foldl (\<lambda>total e. total + byteLength e) 0 es) (VElems es)))
           | _ \<Rightarrow> Inl TypeMismatch))"

subsection \<open>copy\<close>

fun write_array :: "nat \<Rightarrow> byte list \<Rightarrow> nat \<Rightarrow> int list \<Rightarrow> error + byte list" where
  \<comment> \<open>\<open>for (i ...) writeUIntBE(buffer, offset + w * i, value[i])\<close>\<close>
  "write_array w buf off [] = Inr buf"
| "write_array w buf off (x # xs) =
     (case writeUIntBE w buf off x of
        Inl e \<Rightarrow> Inl e
      | Inr buf' \<Rightarrow> write_array w buf' (off + w) xs)"

definition write_chars :: "byte list \<Rightarrow> nat \<Rightarrow> string \<Rightarrow> nat \<Rightarrow> byte list" where
  \<comment> \<open>\<open>for (i < byteLength) buffer[offset + i] = value.charCodeAt(i)\<close>\<close>
  "write_chars buf off s n = foldl (\<lambda>b i. store_byte b (off + i) (charCodeAt s i)) buf [0..<n]"

definition copy_UInt64BE :: "int \<Rightarrow> byte list \<Rightarrow> nat \<Rightarrow> error + byte list" where
  "copy_UInt64BE v buf off =
     (let high = to_int32 (js_trunc_div v UINT32_RANGE);
          low = v - high * UINT32_RANGE
      in case writeUInt32BE buf off high of
           Inl e \<Rightarrow> Inl e
         | Inr buf' \<Rightarrow> writeUInt32BE buf' (off + 4) low)"

definition copy_plain :: "kind \<Rightarrow> nat \<Rightarrow> val \<Rightarrow> byte list \<Rightarrow> nat \<Rightarrow> error + byte list" where
  \<comment> \<open>\<open>copy\<close> of every element class but \<open>ParameterSetArray\<close> and \<open>Box\<close>\<close>
  "copy_plain k n v buf off =
     (case k of
        Empty \<Rightarrow> Inr (fill0 buf off (off + n))
      | CharArray \<Rightarrow>
          (case v of VStr s \<Rightarrow> Inr (write_chars buf off s n) | _ \<Rightarrow> Inl TypeMismatch)
      | UInt8 \<Rightarrow>
          (case v of VNum x \<Rightarrow> writeUInt8 buf off x | _ \<Rightarrow> Inl TypeMismatch)
      | UInt8Array \<Rightarrow>
          (case v of VArr xs \<Rightarrow> write_array 1 buf off xs | _ \<Rightarrow> Inl TypeMismatch)
      | UInt16BE \<Rightarrow>
          (case v of VNum x \<Rightarrow> writeUInt16BE buf off x | _ \<Rightarrow> Inl TypeMismatch)
      | UInt24BE \<Rightarrow>
          (case v of VNum x \<Rightarrow> writeUInt24BE buf off x | _ \<Rightarrow> Inl TypeMismatch)
      | UInt16BEArray \<Rightarrow>
          (case v of VArr xs \<Rightarrow> write_array 2 buf off xs | _ \<Rightarrow> Inl TypeMismatch)
      | UInt32BE \<Rightarrow>
          (case v of VNum x \<Rightarrow> writeUInt32BE buf off x | _ \<Rightarrow> Inl TypeMismatch)
      | UInt32BEArray \<Rightarrow>
          (case v of VArr xs \<Rightarrow> write_array 4 buf off xs | _ \<Rightarrow> Inl TypeMismatch)
      | UInt64BE \<Rightarrow>
          (case v of VNum x \<Rightarrow> copy_UInt64BE x buf off | _ \<Rightarrow> Inl TypeMismatch)
      | ByteArray \<Rightarrow>
          (case v of VBytes bs \<Rightarrow> typed_set buf bs off | _ \<Rightarrow> Inl TypeMismatch)
      | ParameterSetArray m \<Rightarrow> Inl TypeMismatch)"

subsection \<open>load\<close>

fun read_array :: "nat \<Rightarrow> byte list \<Rightarrow> nat \<Rightarrow> nat \<Rightarrow> error + int list" where
  \<comment> \<open>\<open>for (i < value.length) value[i] = readUIntBE(buffer, offset + w * i)\<close>\<close>
  "read_array w buf off 0 = Inr []"
| "read_array w buf off (Suc n) =
     (case readUIntBE w buf off of
        Inl e \<Rightarrow> Inl e
      | Inr x \<Rightarrow> (case read_array w buf (off + w) n of
                    Inl e \<Rightarrow> Inl e
                  | Inr xs \<Rightarrow> Inr (x # xs)))"

definition load_scalar :: "nat \<Rightarrow> byte list \<Rightarrow> nat \<Rightarrow> error + val" where
  "load_scalar w buf off = map_sum id VNum (readUIntBE w buf off)"

definition load_array :: "nat \<Rightarrow> byte list \<Rightarrow> nat \<Rightarrow> val \<Rightarrow> error + val" where
  "load_array w buf off v =
     (case v of VArr xs \<Rightarrow> map_sum id VArr (read_array w buf off (length xs))
              | _ \<Rightarrow> Inl TypeMismatch)"

definition load_UInt64BE :: "byte list \<Rightarrow> nat \<Rightarrow> error + val" where
  "load_UInt64BE buf off =
     (case readUInt32BE buf off of
        Inl e \<Rightarrow> Inl e
      | Inr high \<Rightarrow> (case readUInt32BE buf (off + 4) of
                      Inl e \<Rightarrow> Inl e
                    | Inr low \<Rightarrow> Inr (VNum (high * UINT32_RANGE + low))))"

definition load_plain :: "kind \<Rightarrow> nat \<Rightarrow> val \<Rightarrow> byte list \<Rightarrow> nat \<Rightarrow> error + val" where
  \<comment> \<open>\<open>load\<close> of every element class but \<open>Box\<close>; the result is the new \<open>value\<close>\<close>
  "load_plain k n v buf off =
     (case k of
        Empty \<Rightarrow> Inr v
      | CharArray \<Rightarrow> Inr (VStr (decode (subarray buf off (off + n))))
      | UInt8 \<Rightarrow> load_scalar 1 buf off
      | UInt8Array \<Rightarrow> load_array 1 buf off v
      | UInt16BE \<Rightarrow> load_scalar 2 buf off
      | UInt24BE \<Rightarrow> load_scalar 3 buf off
      | UInt16BEArray \<Rightarrow> load_array 2 buf off v
      | UInt32BE \<Rightarrow> load_scalar 4 buf off
      | UInt32BEArray \<Rightarrow> load_array 4 buf off v
      | UInt64BE \<Rightarrow> load_UInt64BE buf off
      | ByteArray \<Rightarrow> Inl NotImplemented
      | ParameterSetArray m \<Rightarrow> Inr v)"

fun load_element :: "element \<Rightarrow> byte list \<Rightarrow> nat \<Rightarrow> error + element"
and load_entries :: "entry list \<Rightarrow> byte list \<Rightarrow> nat \<Rightarrow> error + entry list" where
  "load_element (Elem k n v) buf off =
     (case load_plain k n v buf off of Inl e \<Rightarrow> Inl e | Inr v' \<Rightarrow> Inr (Elem k n v'))"
| "load_element (BoxEl (Box t c n st bs v)) buf off =
     (case load_entries st buf off of
        Inl e \<Rightarrow> Inl e
      | Inr st' \<Rightarrow> Inr (BoxEl (Box t c n st' bs v)))"
| "load_entries [] buf off = Inr []"
| "load_entries ((key, eoff, el) # es) buf off =
     (case load_element el buf (off + eoff) of
        Inl e \<Rightarrow> Inl e
      | Inr el' \<Rightarrow> (case load_entries es buf off of
                     Inl e \<Rightarrow> Inl e
                   | Inr es' \<Rightarrow> Inr ((key, eoff, el') # es')))"

section \<open>The box schema registry\<close>

datatype header_kind = NoHeader | BoxHeader | FullBoxHeader

type_synonym descriptor = "string \<times> kind \<times> val"

text \<open>
  A \<open>BoxSpec\<close>: the fields the code reads. (\<open>container\<close>, \<open>mandatory\<close> and \<open>quantity\<close>
  are documentation in the source; nothing evaluates them.) A missing \<open>body\<close> or
  \<open>config\<close> is the empty list, as \<open>spec.body || []\<close> and \<open>Object.assign\<close> take it.
\<close>

record BoxSpec =
  spec_box :: header_kind
  spec_is_container :: bool
  spec_body :: "descriptor list"
  spec_config :: "(string \<times> val) list"

definition mkspec ::
  "header_kind \<Rightarrow> bool \<Rightarrow> (string \<times> val) list \<Rightarrow> descriptor list \<Rightarrow> BoxSpec" where
  "mkspec h c cfg b =
     \<lparr>spec_box = h, spec_is_container = c, spec_body = b, spec_config = cfg\<rparr>"

definition unity_matrix :: "int list" where
  "unity_matrix = [0x00010000, 0, 0, 0, 0x00010000, 0, 0, 0, 0x40000000]"

definition BOXSPEC_table :: "(string \<times> BoxSpec) list" where
  "BOXSPEC_table =
   [(''ftyp'', mkspec BoxHeader True []
       [(''major_brand'', CharArray, VStr ''isom''),
        (''minor_version'', UInt32BE, VNum 0),
        (''compatible_brands'', CharArray, VStr ''mp41'')]),
    (''moov'', mkspec BoxHeader True [] []),
    (''mdat'', mkspec BoxHeader False [] []),
    (''mvhd'', mkspec FullBoxHeader False []
       [(''creation_time'', UInt32BE, VNum 0),
        (''modification_time'', UInt32BE, VNum 0),
        (''timescale'', UInt32BE, VNum 1000),
        (''duration'', UInt32BE, VNum 0xffffffff),
        (''rate'', UInt32BE, VNum 0x00010000),
        (''volume'', UInt16BE, VNum 0x0100),
        (''reserved'', Empty, VNum 10),
        (''matrix'', UInt32BEArray, VArr unity_matrix),
        (''pre_defined'', Empty, VNum 24),
        (''next_track_ID'', UInt32BE, VNum 0xffffffff)]),
    (''trak'', mkspec BoxHeader True [] []),
    (''tkhd'', mkspec FullBoxHeader False [(''flags'', VNum 0x000003)]
       [(''creation_time'', UInt32BE, VNum 0),
        (''modification_time'', UInt32BE, VNum 0),
        (''track_ID'', UInt32BE, VNum 1),
        (''reserved'', Empty, VNum 4),
        (''duration'', UInt32BE, VNum 0),
        (''reserved2'', Empty, VNum 8),
        (''layer'', UInt16BE, VNum 0),
        (''alternate_group'', UInt16BE, VNum 0),
        (''volume'', UInt16BE, VNum 0x0100),
        (''reserved3'', Empty, VNum 2),
        (''matrix'', UInt32BEArray, VArr unity_matrix),
        (''width'', UInt32BE, VNum 0),
        (''height'', UInt32BE, VNum 0)]),
    (''tref'', mkspec BoxHeader False [] []),
    (''mdia'', mkspec BoxHeader True [] []),
    (''mdhd'', mkspec FullBoxHeader False []
       [(''creation_time'', UInt32BE, VNum 0),
        (''modification_time'', UInt32BE, VNum 0),
        (''timescale'', UInt32BE, VNum 1000),
        (''duration'', UInt32BE, VNum 0xffffffff),
        (''language'', UInt16BE, VNum 0),
        (''pre_defined'', UInt16BE, VNum 0)]),
    (''hdlr'', mkspec FullBoxHeader False []
       [(''predefined'', UInt32BE, VNum 0),
        (''handler_type'', CharArray, VStr ''vide''),
        (''reserved'', Empty, VNum 12),
        (''name'', CharArray, VStr (''VideoHandler'' @ [CHR 0x00]))]),
    (''minf'', mkspec BoxHeader True [] []),
    (''vmhd'', mkspec FullBoxHeader False [(''flags'', VNum 0x000001)]
       [(''graphicsmode'', UInt16BE, VNum 0),
        (''opcolor'', UInt16BEArray, VArr [0, 0, 0])]),
    (''smhd'', mkspec FullBoxHeader False []
       [(''balance'', UInt16BE, VNum 0x0000),
        (''reserved'', UInt16BE, VUndefined)]),
    (''dinf'', mkspec BoxHeader True [] []),
    (''dref'', mkspec FullBoxHeader True []
       [(''entry_count'', UInt32BE, VNum 0)]),
    (''url '', mkspec FullBoxHeader False [(''flags'', VNum 0x000001)] []),
    (''stbl'', mkspec BoxHeader True [] []),
    (''stts'', mkspec FullBoxHeader False []
       [(''entry_count'', UInt32BE, VNum 0)]),
    (''stsd'', mkspec FullBoxHeader True []
       [(''entry_count'', UInt32BE, VNum 1)]),
    (''avc1'', mkspec BoxHeader True []
       [(''reserved'', Empty, VNum 6),
        (''data_reference_index'', UInt16BE, VNum 1),
        (''pre_defined'', UInt16BE, VNum 0),
        (''reserved2'', Empty, VNum 2),
        (''pre_defined2'', UInt32BEArray, VArr [0, 0, 0]),
        (''width'', UInt16BE, VNum 1920),
        (''height'', UInt16BE, VNum 1080),
        (''horizresolution'', UInt32BE, VNum 0x00480000),
        (''vertresolution'', UInt32BE, VNum 0x00480000),
        (''reserved3'', UInt32BE, VNum 0),
        (''frame_count'', UInt16BE, VNum 1),
        (''compressorname'', UInt8Array, VArr (replicate 32 0)),
        (''depth'', UInt16BE, VNum 0x0018),
        (''pre_defined3'', UInt16BE, VNum 0xffff)]),
    (''avcC'', mkspec BoxHeader False []
       [(''configurationVersion'', UInt8, VNum 1),
        (''AVCProfileIndication'', UInt8, VNum 0x4d),
        (''profile_compatibility'', UInt8, VNum 0x00),
        (''AVCLevelIndication'', UInt8, VNum 0x29),
        (''lengthSizeMinusOne'', UInt8, VNum 0b11111111),
        (''sequenceParameterSets'', ParameterSetArray 0xe0, VArr2 []),
        (''pictureParameterSets'', ParameterSetArray 0x00, VArr2 [])]),
    (''mp4a'', mkspec BoxHeader True []
       [(''reserved'', Empty, VNum 6),
        (''data_reference_index'', UInt16BE, VNum 1),
        (''reserved2'', UInt32BEArray, VArr [0, 0]),
        (''channelcount'', UInt16BE, VNum 2),
        (''samplesize'', UInt16BE, VNum 16),
        (''pre_defined'', UInt16BE, VNum 0),
        (''reserved3'', UInt16BE, VNum 0),
        (''samplerate'', UInt32BE, VNum 0)]),
    (''esds'', mkspec FullBoxHeader False []
       [(''ES_DescrTag'', UInt8, VNum 3),
        (''ES_DescrLength'', UInt8, VNum 25),
        (''ES_ID'', UInt16BE, VNum 1),
        (''flagsAndStreamPriority'', UInt8, VNum 0),
        (''DecoderConfigDescrTag'', UInt8, VNum 4),
        (''DecoderConfigDescrLength'', UInt8, VNum 15),
        (''objectProfileIndication'', UInt8, VNum 0x40),
        (''streamTypeUpstreamReserved'', UInt8, VNum 0x15),
        (''bufferSizeDB'', UInt8Array, VArr [0, 0, 0]),
        (''maxBitRate'', UInt32BE, VNum 0),
        (''avgBitRate'', UInt32BE, VNum 0),
        (''DecSpecificInfoShortTag'', UInt8, VNum 5),
        (''DecSpecificInfoShortLength'', UInt8, VNum 0),
        (''audioConfigBytes'', UInt8Array, VArr []),
        (''SLConfigDescrTag'', UInt8, VNum 6),
        (''SLConfigDescrLength'', UInt8, VNum 1),
        (''SLConfigDescrPredefined'', UInt8, VNum 0x02)]),
    (''stsz'', mkspec FullBoxHeader False []
       [(''sample_size'', UInt32BE, VNum 0),
        (''sample_count'', UInt32BE, VNum 0)]),
    (''stsc'', mkspec FullBoxHeader False []
       [(''entry_count'', UInt32BE, VNum 0)]),
    (''stco'', mkspec FullBoxHeader False []
       [(''entry_count'', UInt32BE, VNum 0)]),
    (''stss'', mkspec FullBoxHeader False []
       [(''entry_count'', UInt32BE, VNum 0)]),
    (''edts'', mkspec BoxHeader True [] []),
    (''elst'', mkspec FullBoxHeader False []
       [(''entry_count'', UInt32BE, VNum 1),
        (''segment_duration'', UInt32BE, VNum 0),
        (''media_time'', UInt32BE, VNum 0xffffffff),
        (''media_rate_integer'', UInt16BE, VNum 1),
        (''media_rate_fraction'', UInt16BE, VNum 0)]),
    (''mvex'', mkspec BoxHeader True [] []),
    (''mehd'', mkspec FullBoxHeader False []
       [(''fragment_duration'', UInt32BE, VNum 0)]),
    (''trex'', mkspec FullBoxHeader False []
       [(''track_ID'', UInt32BE, VNum 1),
        (''default_sample_description_index'', UInt32BE, VNum 1),
        (''default_sample_duration'', UInt32BE, VNum 0),
        (''default_sample_size'', UInt32BE, VNum 0),
        (''default_sample_flags'', UInt32BE, VNum 0)]),
    (''moof'', mkspec BoxHeader False [] []),
    (''mfhd'', mkspec FullBoxHeader False []
       [(''sequence_number'', UInt32BE, VNum 0)]),
    (''traf'', mkspec BoxHeader True [] []),
    (''tfhd'', mkspec FullBoxHeader False [(''flags'', VNum 0x000020)]
       [(''track_ID'', UInt32BE, VNum 1),
        (''default_sample_flags'', UInt32BE, VNum 0)]),
    (''tfdt'', mkspec FullBoxHeader False [(''version'', VNum 1)]
       [(''baseMediaDecodeTime'', UInt64BE, VNum 0)]),
    (''trun'', mkspec FullBoxHeader False [(''flags'', VNum 0x000305)]
       [(''sample_count'', UInt32BE, VNum 1),
        (''data_offset'', UInt32BE, VNum 0),
        (''first_sample_flags'', UInt32BE, VNum 0),
        (''sample_duration'', UInt32BE, VNum 0),
        (''sample_size'', UInt32BE, VNum 0)]),
    (''....'', mkspec BoxHeader False [] []),
    (''file'', mkspec NoHeader True [] [])]"

definition BOXSPEC :: "string \<Rightarrow> BoxSpec option" where
  "BOXSPEC t = map_of BOXSPEC_table t"

definition Header_Box :: "string \<Rightarrow> descriptor list" where
  "Header_Box t = [(''size'', UInt32BE, VNum 0), (''type'', CharArray, VStr t)]"

definition Header_FullBox :: "string \<Rightarrow> descriptor list" where
  "Header_FullBox t =
     Header_Box t @ [(''version'', UInt8, VNum 0x00), (''flags'', UInt24BE, VNum 0x000000)]"

definition Header :: "header_kind \<Rightarrow> string \<Rightarrow> descriptor list" where
  "Header h t =
     (case h of NoHeader \<Rightarrow> [] | BoxHeader \<Rightarrow> Header_Box t | FullBoxHeader \<Rightarrow> Header_FullBox t)"

section \<open>Box\<close>

definition has :: "entry list \<Rightarrow> string \<Rightarrow> bool" where
  "has st key = (map_of st key \<noteq> None)"

fun init_fields ::
  "(string \<times> val) list \<Rightarrow> descriptor list \<Rightarrow> entry list \<Rightarrow> nat \<Rightarrow> error + entry list \<times> nat" where
  \<comment> \<open>the loop of the constructor over \<open>header.concat(body)\<close>\<close>
  "init_fields cfg [] st off = Inr (st, off)"
| "init_fields cfg ((key, Type, defaultValue) # ds) st off =
     (if has st key then Inl DuplicateField
      else
        let v = (case map_of cfg key of
                   None \<Rightarrow> defaultValue
                 | Some c \<Rightarrow> if truthy c then c else defaultValue)
        in case construct Type v of
             Inl e \<Rightarrow> Inl e
           | Inr el \<Rightarrow> init_fields cfg ds (st @ [(key, off, el)]) (off + byteLength el))"

definition Box_new :: "string \<Rightarrow> (string \<times> val) list \<Rightarrow> error + box" where
  \<comment> \<open>\<open>new Box(type, config)\<close>; \<open>Object.assign({}, spec.config, config)\<close> lets the
      caller's entry win\<close>
  "Box_new t config =
     (case BOXSPEC t of
        None \<Rightarrow> Inl UnknownBoxType
      | Some spec \<Rightarrow>
          let cfg = config @ spec_config spec
          in case init_fields cfg (Header (spec_box spec) t @ spec_body spec) [] 0 of
               Inl e \<Rightarrow> Inl e
             | Inr (st, off) \<Rightarrow> Inr (Box t cfg off st None VUndefined))"

definition element :: "box \<Rightarrow> string \<Rightarrow> error + element" where
  "element b key =
     (case map_of (struct b) key of None \<Rightarrow> Inl InvalidKey | Some (off, el) \<Rightarrow> Inr el)"

definition get :: "box \<Rightarrow> string \<Rightarrow> error + val" where
  "get b key = map_sum id value_of (element b key)"

definition offset :: "box \<Rightarrow> string \<Rightarrow> error + nat" where
  "offset b key =
     (case map_of (struct b) key of None \<Rightarrow> Inl InvalidKey | Some (off, el) \<Rightarrow> Inr off)"

fun set_entry :: "entry list \<Rightarrow> string \<Rightarrow> val \<Rightarrow> entry list" where
  \<comment> \<open>the entry of \<open>key\<close> with its element's value replaced\<close>
  "set_entry [] key v = []"
| "set_entry ((k, off, el) # es) key v =
     (if k = key then (k, off, with_value el v) # es else (k, off, el) # set_entry es key v)"

fun set_box :: "box \<Rightarrow> string \<Rightarrow> val \<Rightarrow> error + box" where
  \<comment> \<open>\<open>set(key, value)\<close>: \<open>this.element(key).value = value\<close>\<close>
  "set_box (Box t c n st bs bv) key v =
     (if has st key then Inr (Box t c n (set_entry st key v) bs bv) else Inl InvalidKey)"

fun add :: "box \<Rightarrow> string \<Rightarrow> element \<Rightarrow> error + box" where
  "add (Box t c n st bs bv) key el =
     (if has st key then Inl DuplicateField
      else Inr (Box t c (n + byteLength el) (st @ [(key, n, el)]) bs bv))"

text \<open>
  \<open>Box.copy\<close> first sets the box's own \<open>size\<close> and then lets every element write
  itself, child boxes included; the box and the buffer are both returned as they are
  afterwards. The recursion is through the box as \<open>set\<close> left it, so its termination is
  by a weight that \<open>set\<close> does not increase.
\<close>

fun welem :: "element \<Rightarrow> nat"
and wbox :: "box \<Rightarrow> nat"
and welems :: "element list \<Rightarrow> nat"
and wentries :: "entry list \<Rightarrow> nat" where
  "welem (Elem k n v) = (case v of VElems es \<Rightarrow> Suc (welems es) | _ \<Rightarrow> 0)"
| "welem (BoxEl b) = Suc (wbox b)"
| "wbox (Box t c n st bs v) = Suc (wentries st)"
| "welems [] = 0"
| "welems (e # es) = Suc (welem e + welems es)"
| "wentries [] = 0"
| "wentries ((k, off, e) # es) = Suc (welem e + wentries es)"

lemma wentries_set_entry: "wentries (set_entry st key (VNum x)) \<le> wentries st"
proof (induction st)
  case Nil show ?case by simp
next
  case (Cons a st)
  obtain k off el where a: "a = (k, off, el)" by (cases a)
  have "welem (with_value el (VNum x)) \<le> welem el"
  proof (cases el)
    case (Elem k n v) then show ?thesis by simp
  next
    case (BoxEl b) then show ?thesis by (cases b) simp
  qed
  with Cons a show ?case by simp
qed

lemma wbox_set_box: "set_box b key (VNum x) = Inr b' \<Longrightarrow> wentries (struct b') < wbox b"
  using wentries_set_entry [of _ key x]
  by (cases b) (auto split: if_splits simp: less_Suc_eq_le)

function copy_element :: "element \<Rightarrow> byte list \<Rightarrow> nat \<Rightarrow> error + element \<times> byte list"
and copy_box :: "box \<Rightarrow> byte list \<Rightarrow> nat \<Rightarrow> error + box \<times> byte list"
and copy_elements :: "element list \<Rightarrow> byte list \<Rightarrow> nat \<Rightarrow> error + element list \<times> byte list"
and copy_entries :: "entry list \<Rightarrow> byte list \<Rightarrow> nat \<Rightarrow> error + entry list \<times> byte list" where
  "copy_element (Elem k n v) buf off =
     (case k of
        ParameterSetArray m \<Rightarrow>
          (case v of
             VElems es \<Rightarrow>
               (case copy_elements es buf off of
                  Inl e \<Rightarrow> Inl e
                | Inr (es', buf') \<Rightarrow> Inr (Elem k n (VElems es'), buf'))
           | _ \<Rightarrow> Inl TypeMismatch)
      | _ \<Rightarrow>
          (case copy_plain k n v buf off of
             Inl e \<Rightarrow> Inl e
           | Inr buf' \<Rightarrow> Inr (Elem k n v, buf')))"
| "copy_element (BoxEl b) buf off =
     (case copy_box b buf off of
        Inl e \<Rightarrow> Inl e
      | Inr (b', buf') \<Rightarrow> Inr (BoxEl b', buf'))"
| "copy_box b buf off =
     (case set_box b ''size'' (VNum (int (blen b))) of
        Inl e \<Rightarrow> Inl e
      | Inr b' \<Rightarrow>
          (case copy_entries (struct b') buf off of
             Inl e \<Rightarrow> Inl e
           | Inr (st', buf') \<Rightarrow>
               Inr (Box (btype b') (bconfig b') (blen b') st' (boxSize b') (bvalue b'), buf')))"
| "copy_elements [] buf off = Inr ([], buf)"
| "copy_elements (el # es) buf off =
     (case copy_element el buf off of
        Inl e \<Rightarrow> Inl e
      | Inr (el', buf') \<Rightarrow>
          (case copy_elements es buf' (off + byteLength el') of
             Inl e \<Rightarrow> Inl e
           | Inr (es', buf'') \<Rightarrow> Inr (el' # es', buf'')))"
| "copy_entries [] buf off = Inr ([], buf)"
| "copy_entries ((key, eoff, el) # es) buf off =
     (case copy_element el buf (off + eoff) of
        Inl e \<Rightarrow> Inl e
      | Inr (el', buf') \<Rightarrow>
          (case copy_entries es buf' off of
             Inl e \<Rightarrow> Inl e
           | Inr (es', buf'') \<Rightarrow> Inr ((key, eoff, el') # es', buf'')))"
  by pat_completeness auto
termination
  apply (relation "measure (\<lambda>x. case x of
           Inl (Inl (e, _, _)) \<Rightarrow> welem e
         | Inl (Inr (b, _, _)) \<Rightarrow> wbox b
         | Inr (Inl (es, _, _)) \<Rightarrow> welems es
         | Inr (Inr (es, _, _)) \<Rightarrow> wentries es)")
  apply (auto simp: wbox_set_box)
  done


definition buffer :: "box \<Rightarrow> error + box \<times> byte list" where
  \<comment> \<open>\<open>new Uint8Array(this.byteLength)\<close> is zero-filled\<close>
  "buffer b = copy_box b (replicate (blen b) 0) 0"

definition load :: "box \<Rightarrow> byte list \<Rightarrow> nat \<Rightarrow> error + box" where
  "load b buf off =
     (case load_entries (struct b) buf off of
        Inl e \<Rightarrow> Inl e
      | Inr st' \<Rightarrow> Inr (Box (btype b) (bconfig b) (blen b) st' (boxSize b) (bvalue b)))"

section \<open>Container\<close>

fun digits :: "nat \<Rightarrow> string" where
  \<comment> \<open>the decimal digits of a number, as a template literal prints it\<close>
  "digits n = (if n < 10 then [char_of (48 + n)] else digits (n div 10) @ [char_of (48 + n mod 10)])"

declare digits.simps [simp del]

fun append :: "box \<Rightarrow> box list \<Rightarrow> error + box" where
  \<comment> \<open>\<open>for (const box of boxes) this.add(`box_${this.boxSize++}`, box)\<close>\<close>
  "append b [] = Inr b"
| "append (Box t c n st bs bv) (child # boxes) =
     (case bs of
        None \<Rightarrow> Inl TypeMismatch
      | Some i \<Rightarrow>
          (case add (Box t c n st (Some (i + 1)) bv) (''box_'' @ digits i) (BoxEl child) of
             Inl e \<Rightarrow> Inl e
           | Inr b' \<Rightarrow> append b' boxes))"

definition Container_new :: "string \<Rightarrow> (string \<times> val) list \<Rightarrow> box list \<Rightarrow> error + box" where
  "Container_new t config boxes =
     (case Box_new t config of
        Inl e \<Rightarrow> Inl e
      | Inr (Box t' c n st _ bv) \<Rightarrow> append (Box t' c n st (Some 0) bv) boxes)"

subsection \<open>parse\<close>

datatype track_type = video | audio

datatype MediaTrack = MediaTrack (track_type: track_type) (codec: string)

definition hex_char :: "nat \<Rightarrow> char" where
  "hex_char d = (if d < 10 then char_of (48 + d) else char_of (87 + d))"

fun hex_digits :: "nat \<Rightarrow> string" where
  "hex_digits n =
     (if n < 16 then [hex_char n] else hex_digits (n div 16) @ [hex_char (n mod 16)])"

declare hex_digits.simps [simp del]

definition toString16 :: "int \<Rightarrow> string" where
  \<comment> \<open>\<open>value.toString(16)\<close>\<close>
  "toString16 v = (if v < 0 then ''-'' @ hex_digits (nat (- v)) else hex_digits (nat v))"

definition padStart :: "string \<Rightarrow> nat \<Rightarrow> char \<Rightarrow> string" where
  "padStart s n c = replicate (n - length s) c @ s"

definition hex2 :: "box \<Rightarrow> string \<Rightarrow> error + string" where
  \<comment> \<open>\<open>box.element(key).value.toString(16).padStart(2, 0)\<close>\<close>
  "hex2 b key =
     (case get b key of
        Inl e \<Rightarrow> Inl e
      | Inr (VNum v) \<Rightarrow> Inr (padStart (toString16 v) 2 CHR ''0'')
      | Inr _ \<Rightarrow> Inl TypeMismatch)"

definition array_at0 :: "int list \<Rightarrow> int" where
  \<comment> \<open>\<open>array[0]\<close> as an operand of \<open>>>>\<close>: \<open>undefined\<close>, for the empty array, counts as 0\<close>
  "array_at0 xs = (case xs of [] \<Rightarrow> 0 | x # _ \<Rightarrow> x)"

definition leaf_tracks :: "string \<Rightarrow> box \<Rightarrow> error + MediaTrack list" where
  \<comment> \<open>the tracks a loaded box that is not a container stands for\<close>
  "leaf_tracks boxType b =
     (if boxType = ''avcC'' then
        (case hex2 b ''AVCProfileIndication'' of
           Inl e \<Rightarrow> Inl e
         | Inr profile \<Rightarrow>
             (case hex2 b ''profile_compatibility'' of
                Inl e \<Rightarrow> Inl e
              | Inr compat_ \<Rightarrow>
                  (case hex2 b ''AVCLevelIndication'' of
                     Inl e \<Rightarrow> Inl e
                   | Inr level \<Rightarrow>
                       Inr [MediaTrack video (''avc1.'' @ profile @ compat_ @ level)])))
      else if boxType = ''esds'' then
        (case get b ''audioConfigBytes'' of
           Inl e \<Rightarrow> Inl e
         | Inr (VArr audioConfigBytes) \<Rightarrow>
             (let objectTypeIndication = js_ushr (array_at0 audioConfigBytes) 3
              in Inr [MediaTrack audio (''mp4a.40.'' @ digits (nat objectTypeIndication))])
         | Inr _ \<Rightarrow> Inl TypeMismatch)
      else Inr [])"

definition with_type :: "box \<Rightarrow> error + box" where
  \<comment> \<open>\<open>box.type = box.get('type')\<close>\<close>
  "with_type b =
     (case get b ''type'' of
        Inl e \<Rightarrow> Inl e
      | Inr (VStr t) \<Rightarrow> Inr (Box t (bconfig b) (blen b) (struct b) (boxSize b) (bvalue b))
      | Inr _ \<Rightarrow> Inl TypeMismatch)"

definition size_of :: "box \<Rightarrow> error + nat" where
  \<comment> \<open>\<open>box.get('size')\<close> as an index of \<open>slice\<close> (a loaded size is never negative)\<close>
  "size_of b =
     (case get b ''size'' of
        Inl e \<Rightarrow> Inl e
      | Inr (VNum sz) \<Rightarrow> Inr (nat sz)
      | Inr _ \<Rightarrow> Inl TypeMismatch)"

definition open_box :: "byte list \<Rightarrow> error + box \<times> bool \<times> MediaTrack list" where
  \<comment> \<open>the head of one iteration of \<open>parse\<close>: the box at the start of \<open>data\<close>, loaded;
      whether it is a container, still to be parsed; the tracks of a box that is not\<close>
  "open_box data =
     (let boxType = decode (subarray data 4 (4 + 4))
      in case BOXSPEC boxType of
           Some spec \<Rightarrow>
             if spec_is_container spec then
               (case Container_new boxType [] [] of
                  Inl e \<Rightarrow> Inl e
                | Inr b \<Rightarrow>
                    (case load b data 0 of
                       Inl e \<Rightarrow> Inl e
                     | Inr b' \<Rightarrow> Inr (b', True, [])))
             else
               (case Box_new boxType [] of
                  Inl e \<Rightarrow> Inl e
                | Inr b \<Rightarrow>
                    (case load b data 0 of
                       Inl e \<Rightarrow> Inl e
                     | Inr b' \<Rightarrow>
                         (case leaf_tracks boxType b' of
                            Inl e \<Rightarrow> Inl e
                          | Inr ts \<Rightarrow> Inr (b', False, ts))))
         | None \<Rightarrow>
             (case Box_new ''....'' [] of
                Inl e \<Rightarrow> Inl e
              | Inr b \<Rightarrow>
                  (case load b data 0 of
                     Inl e \<Rightarrow> Inl e
                   | Inr b' \<Rightarrow>
                       (case with_type b' of
                          Inl e \<Rightarrow> Inl e
                        | Inr b'' \<Rightarrow> Inr (b'', False, [])))))"

text \<open>
  \<open>Container.parse\<close>: the loop over \<open>data\<close>, with the recursion into a container's
  body. \<open>parse_loop this data tracks\<close> is the loop from a state on; a run that does not
  return is \<open>None\<close>, a thrown error is \<open>Some (Inl e)\<close>.
\<close>

partial_function (option) parse_loop ::
  "box \<Rightarrow> byte list \<Rightarrow> MediaTrack list \<Rightarrow> (error + box \<times> MediaTrack list) option" where
  "parse_loop this data tracks =
     (if data = [] then Some (Inr (this, tracks))
      else
        case open_box data of
          Inl e \<Rightarrow> Some (Inl e)
        | Inr (b, is_container, ts) \<Rightarrow>
            Option.bind
              (if is_container then
                 (case size_of b of
                    Inl e \<Rightarrow> Some (Inl e)
                  | Inr sz \<Rightarrow> parse_loop b (subarray data (blen b) sz) [])
               else Some (Inr (b, ts)))
              (\<lambda>r. case r of
                     Inl e \<Rightarrow> Some (Inl e)
                   | Inr (b', boxTracks) \<Rightarrow>
                       (case append this [b'] of
                          Inl e \<Rightarrow> Some (Inl e)
                        | Inr this' \<Rightarrow>
                            (case size_of b' of
                               Inl e \<Rightarrow> Some (Inl e)
                             | Inr sz \<Rightarrow>
                                 parse_loop this' (drop sz data) (tracks @ boxTracks)))))"

declare parse_loop.simps [code]

definition parse :: "box \<Rightarrow> byte list \<Rightarrow> (error + box \<times> MediaTrack list) option" where
  "parse this data = parse_loop this data []"

definition bind_err_opt :: "error + 'a \<Rightarrow> ('a \<Rightarrow> (error + 'b) option) \<Rightarrow> (error + 'b) option" where
  "bind_err_opt m f = (case m of Inl e \<Rightarrow> Some (Inl e) | Inr x \<Rightarrow> f x)"

text \<open>
  The loop body with its recursive calls abstracted, and the loop with a bound on the
  number of nested unfoldings: a run of \<open>parse_fuel\<close> that returns is a run of
  \<open>parse_loop\<close> (\<open>parse_fuel_sound\<close> below). It serves to evaluate \<open>parse\<close>.
\<close>

type_synonym parse_result = "(error + box \<times> MediaTrack list) option"

definition parse_body ::
  "(box \<Rightarrow> byte list \<Rightarrow> MediaTrack list \<Rightarrow> parse_result) \<Rightarrow>
   box \<Rightarrow> byte list \<Rightarrow> MediaTrack list \<Rightarrow> parse_result" where
  "parse_body rec this data tracks =
     (if data = [] then Some (Inr (this, tracks))
      else
        case open_box data of
          Inl e \<Rightarrow> Some (Inl e)
        | Inr (b, is_container, ts) \<Rightarrow>
            Option.bind
              (if is_container then
                 (case size_of b of
                    Inl e \<Rightarrow> Some (Inl e)
                  | Inr sz \<Rightarrow> rec b (subarray data (blen b) sz) [])
               else Some (Inr (b, ts)))
              (\<lambda>r. case r of
                     Inl e \<Rightarrow> Some (Inl e)
                   | Inr (b', boxTracks) \<Rightarrow>
                       (case append this [b'] of
                          Inl e \<Rightarrow> Some (Inl e)
                        | Inr this' \<Rightarrow>
                            (case size_of b' of
                               Inl e \<Rightarrow> Some (Inl e)
                             | Inr sz \<Rightarrow>
                                 rec this' (drop sz data) (tracks @ boxTracks)))))"

primrec parse_fuel ::
  "nat \<Rightarrow> box \<Rightarrow> byte list \<Rightarrow> MediaTrack list \<Rightarrow> parse_result" where
  "parse_fuel 0 = (\<lambda>this data tracks. None)"
| "parse_fuel (Suc n) = parse_body (parse_fuel n)"


definition file_box :: box where
  \<comment> \<open>\<open>new Container('file')\<close>\<close>
  "file_box = Box ''file'' [] 0 [] (Some 0) VUndefined"

definition esds_config :: "(string \<times> val) list" where
  \<comment> \<open>an \<open>esds\<close> carrying the two AudioSpecificConfig bytes \<open>11 90\<close> (AAC-LC, 48 kHz, stereo)\<close>
  "esds_config =
     [(''audioConfigBytes'', VArr [0x11, 0x90]), (''DecSpecificInfoShortLength'', VNum 2),
      (''ES_DescrLength'', VNum 27), (''DecoderConfigDescrLength'', VNum 17)]"

definition moov_fixture :: "byte list" where
  \<comment> \<open>a \<open>moov\<close> box (62 bytes) holding one \<open>avcC\<close> (15 bytes) and one \<open>esds\<close> (39 bytes)\<close>
  "moov_fixture =
     [0x00, 0x00, 0x00, 0x3E, 0x6D, 0x6F, 0x6F, 0x76,
      0x00, 0x00, 0x00, 0x0F, 0x61, 0x76, 0x63, 0x43, 0x01, 0x4D, 0x00, 0x29, 0xFF, 0xE0, 0x00,
      0x00, 0x00, 0x00, 0x27, 0x65, 0x73, 0x64, 0x73, 0x00, 0x00, 0x00, 0x00,
      0x03, 0x1B, 0x00, 0x01, 0x00, 0x04, 0x11, 0x40, 0x15, 0x00, 0x00, 0x00,
      0x00, 0x00, 0x00, 0x00, 0x00, 0x00, 0x00, 0x00, 0x05, 0x02, 0x11, 0x90,
      0x06, 0x01, 0x02]"

section \<open>Bytes: big-endian values and overwriting\<close>

lemma length_be_bytes: "length (be_bytes w v) = w"
  by (simp add: be_bytes_def)

lemma be_bytes_Suc: "be_bytes (Suc w) v = be_bytes w (v div 256) @ [word_of_int v]"
proof -
  have "\<And>i. i < w \<Longrightarrow> v div 256 ^ (w - i) = v div 256 div 256 ^ (w - 1 - i)"
  proof -
    fix i assume "i < w"
    then have "w - i = Suc (w - 1 - i)" by simp
    then have "(256::int) ^ (w - i) = 256 * 256 ^ (w - 1 - i)" by simp
    then show "v div 256 ^ (w - i) = v div 256 div 256 ^ (w - 1 - i)"
      by (simp add: zdiv_zmult2_eq)
  qed
  then show ?thesis by (simp add: be_bytes_def)
qed

lemma be_val_snoc: "be_val (bs @ [b]) = be_val bs * 256 + uint b"
  by (simp add: be_val_def)

lemma be_val_be_bytes: "be_val (be_bytes w v) = v mod 256 ^ w"
proof (induction w arbitrary: v)
  case 0
  show ?case by (simp add: be_bytes_def be_val_def)
next
  case (Suc w)
  have "uint (word_of_int v :: byte) = v mod 256"
    by (simp add: uint_word_of_int)
  moreover have "v mod (256 * 256 ^ w) = 256 * (v div 256 mod 256 ^ w) + v mod 256"
    by (rule zmod_zmult2_eq) simp
  ultimately show ?case
    by (simp add: be_bytes_Suc be_val_snoc Suc.IH)
qed

lemma be_val_be_bytes_id: "0 \<le> v \<Longrightarrow> v < 256 ^ w \<Longrightarrow> be_val (be_bytes w v) = v"
  by (simp add: be_val_be_bytes)

lemma length_splice: "off + length bs \<le> length buf \<Longrightarrow> length (splice buf off bs) = length buf"
  by (simp add: splice_def)

lemma splice_splice:
  "off + length a + length b \<le> length buf \<Longrightarrow>
   splice (splice buf off a) (off + length a) b = splice buf off (a @ b)"
  by (simp add: splice_def ac_simps)

lemma slice_splice:
  "off + length bs \<le> length buf \<Longrightarrow> take (length bs) (drop off (splice buf off bs)) = bs"
  by (simp add: splice_def)

lemma to_int32_id: "- (2 ^ 31) \<le> x \<Longrightarrow> x < 2 ^ 31 \<Longrightarrow> to_int32 x = x"
  by (simp add: to_int32_def)

lemma js_trunc_div_nonneg: "0 \<le> a \<Longrightarrow> 0 < b \<Longrightarrow> js_trunc_div a b = a div b"
  by (cases "a = 0") (simp_all add: js_trunc_div_def)


lemma writeUIntBE_ok:
  "0 \<le> v \<Longrightarrow> v < 256 ^ w \<Longrightarrow> off + w \<le> length buf \<Longrightarrow>
   writeUIntBE w buf off v = Inr (splice buf off (be_bytes w v))"
  by (simp add: writeUIntBE_def)

lemma readUIntBE_splice:
  "off + length bs \<le> length buf \<Longrightarrow> length bs = w \<Longrightarrow>
   readUIntBE w (splice buf off bs) off = Inr (be_val bs)"
  using slice_splice [of off bs buf] by (simp add: readUIntBE_def length_splice)

lemma copy_UInt64BE_ok:
  assumes "0 \<le> v" "v < 2 ^ 53" "off + 8 \<le> length buf"
  shows "copy_UInt64BE v buf off =
           Inr (splice buf off (be_bytes 4 (v div 2 ^ 32) @ be_bytes 4 (v - v div 2 ^ 32 * 2 ^ 32)))"
proof -
  let ?high = "v div 2 ^ 32"
  let ?low = "v - ?high * 2 ^ 32"
  have h: "0 \<le> ?high" "?high < 2 ^ 21" using assms by simp_all
  have l: "0 \<le> ?low" "?low < 2 ^ 32"
    using assms by (simp_all add: minus_div_mult_eq_mod)
  have hi: "to_int32 (js_trunc_div v UINT32_RANGE) = ?high"
    using assms h by (simp add: UINT32_RANGE_def js_trunc_div_nonneg to_int32_id)
  have w1: "writeUInt32BE buf off ?high = Inr (splice buf off (be_bytes 4 ?high))"
    using h assms by (intro writeUIntBE_ok) simp_all
  have w2: "writeUInt32BE (splice buf off (be_bytes 4 ?high)) (off + 4) ?low =
              Inr (splice (splice buf off (be_bytes 4 ?high)) (off + 4) (be_bytes 4 ?low))"
    using l assms by (intro writeUIntBE_ok) (simp_all add: length_splice length_be_bytes)
  have "splice (splice buf off (be_bytes 4 ?high)) (off + length (be_bytes 4 ?high)) (be_bytes 4 ?low) =
        splice buf off (be_bytes 4 ?high @ be_bytes 4 ?low)"
    using assms by (intro splice_splice) (simp add: length_be_bytes)
  then show ?thesis
    using w1 w2 hi by (simp add: copy_UInt64BE_def Let_def UINT32_RANGE_def length_be_bytes)
qed

lemma load_UInt64BE_ok:
  assumes "length a = 4" "length b = 4" "off + 8 \<le> length buf"
  shows "load_UInt64BE (splice buf off (a @ b)) off = Inr (VNum (be_val a * 2 ^ 32 + be_val b))"
proof -
  let ?buf = "splice buf off (a @ b)"
  have len: "length ?buf = length buf" using assms by (simp add: length_splice)
  have a: "take 4 (drop off ?buf) = a" using assms by (simp add: splice_def)
  have b: "take 4 (drop (off + 4) ?buf) = b" using assms by (simp add: splice_def)
  have "readUInt32BE ?buf off = Inr (be_val a)"
    using assms a len by (simp add: readUIntBE_def)
  moreover have "readUInt32BE ?buf (off + 4) = Inr (be_val b)"
    using assms b len by (simp add: readUIntBE_def)
  ultimately show ?thesis
    by (simp add: load_UInt64BE_def UINT32_RANGE_def)
qed

section \<open>Evaluating parse\<close>

lemma parse_loop_unfold: "parse_loop this data tracks = parse_body parse_loop this data tracks"
  unfolding parse_body_def by (rule parse_loop.simps)

lemma parse_body_mono:
  assumes fg: "\<And>t d ts r. f t d ts = Some r \<Longrightarrow> g t d ts = Some r"
    and f: "parse_body f this data tracks = Some r"
  shows "parse_body g this data tracks = Some r"
proof (cases "data = []")
  case True
  with f show ?thesis by (simp add: parse_body_def)
next
  case False
  show ?thesis
  proof (cases "open_box data")
    case (Inl e)
    with f False show ?thesis by (simp add: parse_body_def)
  next
    case (Inr x)
    obtain b c ts where x: "x = (b, c, ts)" by (cases x)
    define inner where "inner h =
        (if c then (case size_of b of Inl e \<Rightarrow> Some (Inl e)
                    | Inr sz \<Rightarrow> h b (subarray data (blen b) sz) [])
         else Some (Inr (b, ts)))" for h :: "box \<Rightarrow> byte list \<Rightarrow> MediaTrack list \<Rightarrow> parse_result"
    define k where "k h r1 =
        (case r1 of
           Inl e \<Rightarrow> Some (Inl e)
         | Inr (b', boxTracks) \<Rightarrow>
             (case append this [b'] of
                Inl e \<Rightarrow> Some (Inl e)
              | Inr this' \<Rightarrow>
                  (case size_of b' of
                     Inl e \<Rightarrow> Some (Inl e)
                   | Inr sz \<Rightarrow> h this' (drop sz data) (tracks @ boxTracks))))"
      for h :: "box \<Rightarrow> byte list \<Rightarrow> MediaTrack list \<Rightarrow> parse_result" and r1
    have body: "parse_body h this data tracks = Option.bind (inner h) (k h)" for h
      unfolding parse_body_def inner_def k_def [abs_def] using False Inr x by simp
    from f obtain r1 where i: "inner f = Some r1" and kf: "k f r1 = Some r"
      by (auto simp: body Option.bind_eq_Some_conv)
    have "inner g = Some r1"
      using i fg by (auto simp: inner_def split: if_splits sum.splits)
    moreover have "k g r1 = Some r"
      using kf fg by (auto simp: k_def split: sum.splits prod.splits)
    ultimately show ?thesis by (simp add: body)
  qed
qed

lemma parse_fuel_sound:
  "parse_fuel n this data tracks = Some r \<Longrightarrow> parse_loop this data tracks = Some r"
proof (induction n arbitrary: this data tracks r)
  case 0
  then show ?case by simp
next
  case (Suc n)
  from Suc.prems have "parse_body (parse_fuel n) this data tracks = Some r" by simp
  with Suc.IH have "parse_body parse_loop this data tracks = Some r"
    by (rule parse_body_mono)
  then show ?case by (simp only: parse_loop_unfold [symmetric])
qed

lemma Container_new_file: "Container_new ''file'' [] [] = Inr file_box"
  unfolding file_box_def by code_simp

section \<open>Fixtures\<close>

text \<open>
  C9. \<open>new Box('ftyp')\<close> with no configuration serialises, by \<open>buffer()\<close>, to the 20 bytes
  \<open>00 00 00 14 66 74 79 70 69 73 6F 6D 00 00 00 00 6D 70 34 31\<close>: size 20, type
  \<open>ftyp\<close>, major brand \<open>isom\<close>, minor version 0, compatible brands \<open>mp41\<close>.
\<close>

theorem ftyp_fixture:
  "map_sum id snd (bind_err (Box_new ''ftyp'' []) buffer) =
     Inr [0x00, 0x00, 0x00, 0x14, 0x66, 0x74, 0x79, 0x70, 0x69, 0x73, 0x6F, 0x6D,
          0x00, 0x00, 0x00, 0x00, 0x6D, 0x70, 0x34, 0x31]"
  by code_simp

section \<open>64-bit values\<close>

text \<open>
  C6. For every integer \<open>v\<close> with \<open>0 \<le> v < 2^53\<close>, a \<open>UInt64BE\<close> element holding \<open>v\<close>
  writes the two big-endian 32-bit halves \<open>high = v div 2^32\<close> and
  \<open>low = v - high * 2^32\<close>, and loading those eight bytes gives
  \<open>high * 2^32 + low = v\<close> again. \<open>new Box('tfdt')\<close> has byte length 20 and byte 8 of its
  buffer is \<open>01\<close>; with \<open>baseMediaDecodeTime\<close> set to \<open>0x100000000\<close>, written and loaded
  into a fresh \<open>tfdt\<close> box, the field reads 4294967296.
\<close>

theorem UInt64BE_roundtrip:
  "0 \<le> v \<and> v < 2 ^ 53 \<and> off + 8 \<le> length buf \<longrightarrow>
     (let high = v div 2 ^ 32;
          low = v - high * 2 ^ 32;
          buf' = splice buf off (be_bytes 4 high @ be_bytes 4 low)
      in construct UInt64BE (VNum v) = Inr (Elem UInt64BE 8 (VNum v)) \<and>
         copy_element (Elem UInt64BE 8 (VNum v)) buf off = Inr (Elem UInt64BE 8 (VNum v), buf') \<and>
         load_element (Elem UInt64BE 8 w) buf' off = Inr (Elem UInt64BE 8 (VNum (high * 2 ^ 32 + low))) \<and>
         high * 2 ^ 32 + low = v) \<and>
   map_sum id blen (Box_new ''tfdt'' []) = Inr 20 \<and>
   map_sum id (\<lambda>(b, bytes). bytes ! 8) (bind_err (Box_new ''tfdt'' []) buffer) = Inr 0x01 \<and>
   bind_err (bind_err (bind_err (Box_new ''tfdt'' [])
       (\<lambda>b. set_box b ''baseMediaDecodeTime'' (VNum 0x100000000))) buffer)
     (\<lambda>(b, bytes). bind_err (bind_err (Box_new ''tfdt'' []) (\<lambda>b'. load b' bytes 0))
        (\<lambda>b'. get b' ''baseMediaDecodeTime'')) = Inr (VNum 4294967296)"
proof -
  have general: "construct UInt64BE (VNum v) = Inr (Elem UInt64BE 8 (VNum v)) \<and>
         copy_element (Elem UInt64BE 8 (VNum v)) buf off =
           Inr (Elem UInt64BE 8 (VNum v),
                splice buf off (be_bytes 4 (v div 2 ^ 32) @ be_bytes 4 (v - v div 2 ^ 32 * 2 ^ 32))) \<and>
         load_element (Elem UInt64BE 8 w)
           (splice buf off (be_bytes 4 (v div 2 ^ 32) @ be_bytes 4 (v - v div 2 ^ 32 * 2 ^ 32))) off =
           Inr (Elem UInt64BE 8 (VNum (v div 2 ^ 32 * 2 ^ 32 + (v - v div 2 ^ 32 * 2 ^ 32))))"
    if v: "0 \<le> v" "v < 2 ^ 53" and len: "off + 8 \<le> length buf"
  proof -
    let ?high = "v div 2 ^ 32"
    let ?low = "v - ?high * 2 ^ 32"
    have h: "0 \<le> ?high" "?high < 256 ^ 4" using v by simp_all
    have l: "0 \<le> ?low" "?low < 256 ^ 4" using v by (simp_all add: minus_div_mult_eq_mod)
    have "load_UInt64BE (splice buf off (be_bytes 4 ?high @ be_bytes 4 ?low)) off =
            Inr (VNum (be_val (be_bytes 4 ?high) * 2 ^ 32 + be_val (be_bytes 4 ?low)))"
      using len by (intro load_UInt64BE_ok) (simp_all add: length_be_bytes)
    moreover have "be_val (be_bytes 4 ?high) = ?high" using h by (rule be_val_be_bytes_id)
    moreover have "be_val (be_bytes 4 ?low) = ?low" using l by (rule be_val_be_bytes_id)
    ultimately show ?thesis
      using copy_UInt64BE_ok [OF v len]
      by (simp add: construct_def copy_plain_def load_plain_def)
  qed
  have c1: "map_sum id blen (Box_new ''tfdt'' []) = Inr 20" by code_simp
  have c2: "map_sum id (\<lambda>(b, bytes). bytes ! 8) (bind_err (Box_new ''tfdt'' []) buffer) = Inr 0x01"
    by code_simp
  have c3: "bind_err (bind_err (bind_err (Box_new ''tfdt'' [])
       (\<lambda>b. set_box b ''baseMediaDecodeTime'' (VNum 0x100000000))) buffer)
     (\<lambda>(b, bytes). bind_err (bind_err (Box_new ''tfdt'' []) (\<lambda>b'. load b' bytes 0))
        (\<lambda>b'. get b' ''baseMediaDecodeTime'')) = Inr (VNum 4294967296)"
    by code_simp
  show ?thesis using general c1 c2 c3 by (simp add: Let_def)
qed


theorem UInt64BE_roundtrip_witness:
  "copy_element (Elem UInt64BE 8 (VNum 4294967296)) (replicate 8 0) 0 =
     Inr (Elem UInt64BE 8 (VNum 4294967296), [0, 0, 0, 1, 0, 0, 0, 0]) \<and>
   load_element (Elem UInt64BE 8 VUndefined) [0, 0, 0, 1, 0, 0, 0, 0] 0 =
     Inr (Elem UInt64BE 8 (VNum 4294967296))"
proof -
  have bytes: "splice (replicate 8 0) 0
      (be_bytes 4 (4294967296 div 2 ^ 32) @
       be_bytes 4 (4294967296 - 4294967296 div 2 ^ 32 * 2 ^ 32)) = [0, 0, 0, 1, 0, 0, 0, 0]"
    by code_simp
  show ?thesis
    using UInt64BE_roundtrip [of 4294967296 0 "replicate 8 0" VUndefined] bytes
    by (simp add: Let_def)
qed

section \<open>Track discovery\<close>

text \<open>
  The fixture is what the encoder writes for a \<open>moov\<close> container whose children are a
  default \<open>avcC\<close> box and an \<open>esds\<close> box configured with \<open>audioConfigBytes = [0x11, 0x90]\<close>.
\<close>

lemma moov_fixture_built:
  "map_sum id snd
     (bind_err (Box_new ''avcC'' [])
        (\<lambda>v. bind_err (Box_new ''esds'' esds_config)
           (\<lambda>a. bind_err (Container_new ''moov'' [] [v, a]) buffer))) = Inr moov_fixture"
  by code_simp

text \<open>
  C2. Parsing a \<open>moov\<close> byte sequence that holds one \<open>avcC\<close> box (profile \<open>4D\<close>,
  compatibility \<open>00\<close>, level \<open>29\<close>) and one \<open>esds\<close> box whose \<open>audioConfigBytes[0]\<close> is
  \<open>0x11\<close> should give the tracks \<open>avc1.4d0029\<close> and \<open>mp4a.40.2\<close>. On the code the video
  track is as claimed, and the audio track is \<open>mp4a.40.0\<close>: the \<open>esds\<close> box that \<open>parse\<close>
  constructs has the schema's empty \<open>audioConfigBytes\<close>, whose \<open>load\<close> reads as many bytes
  as it already holds, none; \<open>audioConfigBytes[0] >>> 3\<close> is then \<open>undefined >>> 3 = 0\<close>.
\<close>

theorem parse_moov_tracks:
  "map_option (map_sum id snd)
     (bind_err_opt (Container_new ''file'' [] []) (\<lambda>file. parse file moov_fixture)) =
   Some (Inr [MediaTrack video ''avc1.4d0029'', MediaTrack audio ''mp4a.40.0''])"
proof -
  have "map_option (map_sum id snd) (parse_fuel 4 file_box moov_fixture []) =
          Some (Inr [MediaTrack video ''avc1.4d0029'', MediaTrack audio ''mp4a.40.0''])"
    by code_simp
  then obtain r where r: "parse_fuel 4 file_box moov_fixture [] = Some r"
    and tracks: "map_sum id snd r =
                   Inr [MediaTrack video ''avc1.4d0029'', MediaTrack audio ''mp4a.40.0'']"
    by auto
  from r have "parse_loop file_box moov_fixture [] = Some r"
    by (rule parse_fuel_sound)
  with tracks show ?thesis
    by (simp add: Container_new_file bind_err_opt_def parse_def)
qed

section \<open>Configuration at construction\<close>

text \<open>
  C3. At construction every field should take the merged configuration's entry for its
  name whenever there is one, whatever the value, also \<open>0\<close> and the empty string, and
  the schema default otherwise. The constructor tests \<open>if (this.config[key])\<close>, so an
  entry that is \<open>0\<close> or the empty string is passed over and the default stands:
  \<open>timescale: 0\<close> leaves 1000, \<open>handler_type: ''\<close> leaves \<open>vide\<close>. An empty array is
  taken.
\<close>

theorem config_falsy_ignored:
  "bind_err (Box_new ''mvhd'' [(''timescale'', VNum 0)]) (\<lambda>b. get b ''timescale'') =
     Inr (VNum 1000) \<and>
   bind_err (Box_new ''hdlr'' [(''handler_type'', VStr [])]) (\<lambda>b. get b ''handler_type'') =
     Inr (VStr ''vide'') \<and>
   bind_err (Box_new ''vmhd'' [(''opcolor'', VArr [])]) (\<lambda>b. get b ''opcolor'') =
     Inr (VArr [])"
  by code_simp

end
